theory Spec2Isabelle
  imports Main "HOL-Library.Sublist"
begin

section \<open>Strings as the library code uses them\<close>

text \<open>
  A JavaScript string is a sequence of code units; it is modelled as a \<open>string\<close>
  (a list of characters), one character per code unit. The four string methods the
  authentication library calls are written out as list functions.
\<close>

text \<open>\<^verbatim>\<open>s.startsWith(p)\<close>\<close>

fun startsWith :: "string \<Rightarrow> string \<Rightarrow> bool" where
  "startsWith s [] = True"
| "startsWith [] (c # p) = False"
| "startsWith (x # s) (c # p) = (x = c \<and> startsWith s p)"

text \<open>\<^verbatim>\<open>s.endsWith(p)\<close>\<close>

definition endsWith :: "string \<Rightarrow> string \<Rightarrow> bool" where
  "endsWith s p = startsWith (rev s) (rev p)"

text \<open>\<^verbatim>\<open>s.slice(0, -k)\<close>: everything but the last \<open>k\<close> code units (the empty string when
  the string is shorter than \<open>k\<close>).\<close>

definition slice_from_start :: "string \<Rightarrow> nat \<Rightarrow> string" where
  "slice_from_start s k = take (length s - k) s"

text \<open>\<^verbatim>\<open>s.substring(n)\<close>\<close>

definition substring :: "string \<Rightarrow> nat \<Rightarrow> string" where
  "substring s n = drop n s"

text \<open>\<^verbatim>\<open>xs.includes(x)\<close> and \<^verbatim>\<open>xs.some(f)\<close> on arrays.\<close>

definition array_includes :: "string list \<Rightarrow> string \<Rightarrow> bool" where
  "array_includes xs x = (x \<in> set xs)"

definition array_some :: "string list \<Rightarrow> (string \<Rightarrow> bool) \<Rightarrow> bool" where
  "array_some xs f = list_ex f xs"

section \<open>Roles and the permission table (lib/auth.ts)\<close>

text \<open>\<^verbatim>\<open>type UserRole = "admin" | "editor" | "author" | "viewer"\<close>\<close>

datatype UserRole = admin | editor | author | viewer

text \<open>
  \<^verbatim>\<open>
  export function getUserPermissions(role: UserRole): string[] {
    const permissions: Record<UserRole, string[]> = {
      admin: ["*"],
      editor: ["content:*", "media:*", "comments:moderate"],
      author: ["content:create", "content:edit:own", "media:upload"],
      viewer: ["content:read", "comments:create"],
    };
    return permissions[role];
  }
  \<close>
\<close>

fun getUserPermissions :: "UserRole \<Rightarrow> string list" where
  "getUserPermissions admin = [''*'']"
| "getUserPermissions editor = [''content:*'', ''media:*'', ''comments:moderate'']"
| "getUserPermissions author = [''content:create'', ''content:edit:own'', ''media:upload'']"
| "getUserPermissions viewer = [''content:read'', ''comments:create'']"

text \<open>
  \<^verbatim>\<open>
  export function hasPermission(userRole: UserRole, permission: string): boolean {
    const permissions = getUserPermissions(userRole);
    if (permissions.includes("*")) {
      return true;
    }
    return permissions.some((p) => {
      if (p.endsWith(":*")) {
        const prefix = p.slice(0, -2);
        return permission.startsWith(prefix);
      }
      return p === permission;
    });
  }
  \<close>
\<close>

definition hasPermission :: "UserRole \<Rightarrow> string \<Rightarrow> bool" where
  "hasPermission userRole permission =
     (let permissions = getUserPermissions userRole
      in if array_includes permissions ''*'' then True
         else array_some permissions
                (\<lambda>p. if endsWith p '':*''
                     then (let prefix = slice_from_start p 2 in startsWith permission prefix)
                     else p = permission))"

text \<open>
  The specification of the permission table (its section 4.4) in its own words, for the
  comparison with \<open>hasPermission\<close>: the prefix of a wildcard pattern is the pattern minus
  its trailing \<open>*\<close>, so that the colon belongs to the prefix. This definition does not
  come from the source.
\<close>

definition has_colon_prefix :: "UserRole \<Rightarrow> string \<Rightarrow> bool" where
  "has_colon_prefix R a =
     (''*'' \<in> set (getUserPermissions R)
      \<or> list_ex (\<lambda>p. suffix '':*'' p \<and> prefix (butlast p) a) (getUserPermissions R)
      \<or> a \<in> set (getUserPermissions R))"

text \<open>
  \<^verbatim>\<open>
  export function canModifyResource(userRole, userId, resourceOwnerId): boolean {
    // Admins and editors can modify anything
    if (userRole === "admin" || userRole === "editor") {
      return true;
    }
    // Users can only modify their own resources
    return userId === resourceOwnerId;
  }
  \<close>
\<close>

definition canModifyResource :: "UserRole \<Rightarrow> string \<Rightarrow> string \<Rightarrow> bool" where
  "canModifyResource userRole userId resourceOwnerId =
     (if userRole = admin \<or> userRole = editor then True
      else userId = resourceOwnerId)"

section \<open>The permission check of the shared package (packages/shared/src/utils.ts)\<close>

text \<open>
  The shared package carries its own table inside the function and repeats the check.
\<close>

fun rolePermissions :: "UserRole \<Rightarrow> string list" where
  "rolePermissions admin = [''*'']"
| "rolePermissions editor = [''content:*'', ''media:*'', ''comments:moderate'']"
| "rolePermissions author = [''content:create'', ''content:edit:own'', ''media:upload'']"
| "rolePermissions viewer = [''content:read'', ''comments:create'']"

definition shared_hasPermission :: "UserRole \<Rightarrow> string \<Rightarrow> bool" where
  "shared_hasPermission userRole permission =
     (let permissions = rolePermissions userRole
      in if array_includes permissions ''*'' then True
         else array_some permissions
                (\<lambda>p. if endsWith p '':*''
                     then (let prefix = slice_from_start p 2 in startsWith permission prefix)
                     else p = permission))"

section \<open>The store (the Prisma client as lib/auth.ts uses it)\<close>

text \<open>
  A user row and a refresh-token row, with the fields the authentication code reads or
  writes. Instants (\<^verbatim>\<open>Date\<close>) are milliseconds since the epoch, compared as numbers.
  \<open>user_password\<close> is \<open>None\<close> for an account without a password.
\<close>

record User =
  user_id :: string
  user_email :: string
  user_name :: string
  user_password :: "string option"
  user_role :: UserRole

record RefreshToken =
  rt_token :: string
  rt_userId :: string
  rt_expiresAt :: int

record Database =
  users :: "User list"
  refreshTokens :: "RefreshToken list"

text \<open>The errors a Prisma call rejects with: no row for a delete, a unique key taken.\<close>

datatype PrismaError = RecordNotFound | UniqueConstraintFailed

text \<open>\<^verbatim>\<open>prisma.refreshToken.findUnique({ where: { token } })\<close>\<close>

definition refreshToken_findUnique :: "Database \<Rightarrow> string \<Rightarrow> RefreshToken option" where
  "refreshToken_findUnique db t = find (\<lambda>r. rt_token r = t) (refreshTokens db)"

text \<open>\<^verbatim>\<open>prisma.user.findUnique({ where: { id } })\<close>, the relation a refresh token includes.\<close>

definition user_findUnique_id :: "Database \<Rightarrow> string \<Rightarrow> User option" where
  "user_findUnique_id db i = find (\<lambda>u. user_id u = i) (users db)"

text \<open>\<^verbatim>\<open>prisma.refreshToken.findUnique({ where: { token }, include: { user: true } })\<close>:
  the row together with the user its \<open>userId\<close> refers to.\<close>

definition refreshToken_findUnique_include_user ::
    "Database \<Rightarrow> string \<Rightarrow> (RefreshToken \<times> User option) option" where
  "refreshToken_findUnique_include_user db t =
     (case refreshToken_findUnique db t of
        None \<Rightarrow> None
      | Some r \<Rightarrow> Some (r, user_findUnique_id db (rt_userId r)))"

text \<open>\<^verbatim>\<open>prisma.refreshToken.delete({ where: { token } })\<close> rejects when no row has the
  token; \<open>token\<close> is a unique key, so the rows with that token are the row.\<close>

definition refreshToken_delete :: "Database \<Rightarrow> string \<Rightarrow> PrismaError + Database" where
  "refreshToken_delete db t =
     (case refreshToken_findUnique db t of
        None \<Rightarrow> Inl RecordNotFound
      | Some r \<Rightarrow> Inr (db\<lparr>refreshTokens := filter (\<lambda>r. rt_token r \<noteq> t) (refreshTokens db)\<rparr>))"

text \<open>\<^verbatim>\<open>prisma.refreshToken.create({ data })\<close> rejects when the token is taken.\<close>

definition refreshToken_create :: "Database \<Rightarrow> RefreshToken \<Rightarrow> PrismaError + Database" where
  "refreshToken_create db row =
     (if list_ex (\<lambda>r. rt_token r = rt_token row) (refreshTokens db)
      then Inl UniqueConstraintFailed
      else Inr (db\<lparr>refreshTokens := refreshTokens db @ [row]\<rparr>))"

text \<open>\<^verbatim>\<open>prisma.refreshToken.deleteMany({ where: { expiresAt: { lt: now } } })\<close>\<close>

definition refreshToken_deleteMany_expiresAt_lt :: "Database \<Rightarrow> int \<Rightarrow> Database" where
  "refreshToken_deleteMany_expiresAt_lt db now =
     db\<lparr>refreshTokens := filter (\<lambda>r. \<not> rt_expiresAt r < now) (refreshTokens db)\<rparr>"

text \<open>\<^verbatim>\<open>prisma.user.findUnique({ where: { email } })\<close>\<close>

definition user_findUnique_email :: "Database \<Rightarrow> string \<Rightarrow> User option" where
  "user_findUnique_email db e = find (\<lambda>u. user_email u = e) (users db)"

text \<open>\<^verbatim>\<open>prisma.user.create({ data })\<close> rejects when the email or the id is taken.\<close>

definition user_create :: "Database \<Rightarrow> User \<Rightarrow> PrismaError + Database \<times> User" where
  "user_create db u =
     (if list_ex (\<lambda>v. user_email v = user_email u \<or> user_id v = user_id u) (users db)
      then Inl UniqueConstraintFailed
      else Inr (db\<lparr>users := users db @ [u]\<rparr>, u))"

section \<open>What the process takes from outside\<close>

text \<open>
  The libraries and the surroundings the code calls, as they answer during one request:
  the environment variables, \<^verbatim>\<open>jsonwebtoken\<close> (\<open>jwt_verify\<close> gives \<open>Inl\<close> where
  \<^verbatim>\<open>jwt.verify\<close> throws), \<^verbatim>\<open>bcryptjs\<close>, \<^verbatim>\<open>nanoid\<close>, the clock, the calendar
  arithmetic of \<^verbatim>\<open>Date.setDate\<close>, the id the store gives a new user, the email test of
  the validation library and the rate limiter. The clock is read once per request. Every
  call of a library and of the store is taken to return: an outage of the database or of
  the rate limiter is not part of the model.
\<close>

record JWTPayload =
  jwt_userId :: string
  jwt_email :: string
  jwt_role :: UserRole

record AuthTokens =
  accessToken :: string
  refreshToken :: string

record Oracles =
  process_env :: "string \<Rightarrow> string option"
  jwt_sign :: "JWTPayload \<Rightarrow> string \<Rightarrow> string \<Rightarrow> string"
  jwt_verify :: "string \<Rightarrow> string \<Rightarrow> string + JWTPayload"
  bcrypt_hash :: "string \<Rightarrow> nat \<Rightarrow> string"
  bcrypt_compare :: "string \<Rightarrow> string \<Rightarrow> bool"
  nanoid :: "nat \<Rightarrow> string"
  new_Date :: int
  plus_days :: "int \<Rightarrow> int \<Rightarrow> int"
  new_user_id :: string
  is_email :: "string \<Rightarrow> bool"
  checkRateLimit :: "string \<Rightarrow> nat \<Rightarrow> nat \<Rightarrow> bool \<times> int"

section \<open>lib/auth.ts\<close>

text \<open>
  \<^verbatim>\<open>
  const JWT_SECRET =
    process.env.JWT_SECRET || "your-super-secret-jwt-key-change-in-production";
  const ACCESS_TOKEN_EXPIRY = "15m";
  \<close>
  \<^verbatim>\<open>||\<close> takes its right operand when the left one is undefined or the empty string.
\<close>

definition JWT_SECRET :: "(string \<Rightarrow> string option) \<Rightarrow> string" where
  "JWT_SECRET penv =
     (case penv ''JWT_SECRET'' of
        None \<Rightarrow> ''your-super-secret-jwt-key-change-in-production''
      | Some s \<Rightarrow> if s = [] then ''your-super-secret-jwt-key-change-in-production'' else s)"

definition ACCESS_TOKEN_EXPIRY :: string where
  "ACCESS_TOKEN_EXPIRY = ''15m''"

text \<open>
  lib/stripe.ts, loaded by the same process, reads its secret this way:
  \<^verbatim>\<open>
  if (!process.env.STRIPE_SECRET_KEY) {
    throw new Error("STRIPE_SECRET_KEY is not set");
  }
  \<close>
  Loading the module gives the error, or the key the client is built with.
\<close>

definition stripe_module_load :: "(string \<Rightarrow> string option) \<Rightarrow> string + string" where
  "stripe_module_load penv =
     (case penv ''STRIPE_SECRET_KEY'' of
        None \<Rightarrow> Inl ''STRIPE_SECRET_KEY is not set''
      | Some s \<Rightarrow> if s = [] then Inl ''STRIPE_SECRET_KEY is not set'' else Inr s)"

text \<open>Loading lib/auth.ts only evaluates its constants: no statement of it throws.\<close>

definition auth_module_load :: "(string \<Rightarrow> string option) \<Rightarrow> string + string" where
  "auth_module_load penv = Inr (JWT_SECRET penv)"

text \<open>
  \<^verbatim>\<open>
  export async function verifyPassword(password, hash) {
    return bcrypt.compare(password, hash);
  }
  export async function hashPassword(password) {
    return bcrypt.hash(password, 10);
  }
  export function generateAccessToken(payload: JWTPayload): string {
    return jwt.sign(payload, JWT_SECRET, { expiresIn: ACCESS_TOKEN_EXPIRY });
  }
  \<close>
\<close>

definition verifyPassword :: "Oracles \<Rightarrow> string \<Rightarrow> string \<Rightarrow> bool" where
  "verifyPassword orc password hash = bcrypt_compare orc password hash"

definition hashPassword :: "Oracles \<Rightarrow> string \<Rightarrow> string" where
  "hashPassword orc password = bcrypt_hash orc password 10"

definition generateAccessToken :: "Oracles \<Rightarrow> JWTPayload \<Rightarrow> string" where
  "generateAccessToken orc payload =
     jwt_sign orc payload (JWT_SECRET (process_env orc)) ACCESS_TOKEN_EXPIRY"

text \<open>
  \<^verbatim>\<open>
  export async function generateRefreshToken(userId: string): Promise<string> {
    const token = nanoid(64);
    const expiresAt = new Date();
    expiresAt.setDate(expiresAt.getDate() + 7); // 7 days
    await prisma.refreshToken.create({ data: { token, userId, expiresAt } });
    return token;
  }
  \<close>
  A rejected \<^verbatim>\<open>create\<close> is thrown to the caller.
\<close>

definition generateRefreshToken ::
    "Oracles \<Rightarrow> Database \<Rightarrow> string \<Rightarrow> PrismaError + string \<times> Database" where
  "generateRefreshToken orc db userId =
     (let token = nanoid orc 64;
          expiresAt = plus_days orc (new_Date orc) 7
      in case refreshToken_create db
                \<lparr>rt_token = token, rt_userId = userId, rt_expiresAt = expiresAt\<rparr> of
           Inl e \<Rightarrow> Inl e
         | Inr db' \<Rightarrow> Inr (token, db'))"

text \<open>
  \<^verbatim>\<open>
  export async function generateAuthTokens(user: User): Promise<AuthTokens> {
    const payload = { userId: user.id, email: user.email, role: user.role };
    const accessToken = generateAccessToken(payload);
    const refreshToken = await generateRefreshToken(user.id);
    return { accessToken, refreshToken };
  }
  \<close>
\<close>

definition generateAuthTokens ::
    "Oracles \<Rightarrow> Database \<Rightarrow> User \<Rightarrow> PrismaError + AuthTokens \<times> Database" where
  "generateAuthTokens orc db user =
     (let payload = \<lparr>jwt_userId = user_id user, jwt_email = user_email user,
                      jwt_role = user_role user\<rparr>;
          access = generateAccessToken orc payload
      in case generateRefreshToken orc db (user_id user) of
           Inl e \<Rightarrow> Inl e
         | Inr (refresh, db') \<Rightarrow>
             Inr (\<lparr>accessToken = access, refreshToken = refresh\<rparr>, db'))"

text \<open>
  \<^verbatim>\<open>
  export function verifyAccessToken(token: string): JWTPayload | null {
    try {
      return jwt.verify(token, JWT_SECRET) as JWTPayload;
    } catch (error) {
      return null;
    }
  }
  \<close>
\<close>

definition verifyAccessToken :: "Oracles \<Rightarrow> string \<Rightarrow> JWTPayload option" where
  "verifyAccessToken orc token =
     (case jwt_verify orc token (JWT_SECRET (process_env orc)) of
        Inl error \<Rightarrow> None
      | Inr payload \<Rightarrow> Some payload)"

text \<open>
  \<^verbatim>\<open>
  export async function verifyRefreshToken(token: string): Promise<User | null> {
    const refreshToken = await prisma.refreshToken.findUnique({
      where: { token },
      include: { user: true },
    });
    if (!refreshToken || refreshToken.expiresAt < new Date()) {
      return null;
    }
    return refreshToken.user;
  }
  \<close>
  The second argument is the reading of the clock (\<^verbatim>\<open>new Date()\<close>).
\<close>

definition verifyRefreshToken :: "Database \<Rightarrow> int \<Rightarrow> string \<Rightarrow> User option" where
  "verifyRefreshToken db now token =
     (case refreshToken_findUnique_include_user db token of
        None \<Rightarrow> None
      | Some (row, usr) \<Rightarrow> if rt_expiresAt row < now then None else usr)"

text \<open>
  \<^verbatim>\<open>
  export async function revokeRefreshToken(token: string): Promise<void> {
    await prisma.refreshToken
      .delete({ where: { token } })
      .catch(() => {
        // Token might not exist, ignore error
      });
  }
  \<close>
  The result is the error the caller would see, or the store after the call.
\<close>

definition revokeRefreshToken :: "Database \<Rightarrow> string \<Rightarrow> PrismaError + Database" where
  "revokeRefreshToken db token =
     (case refreshToken_delete db token of
        Inl e \<Rightarrow> Inr db
      | Inr db' \<Rightarrow> Inr db')"

text \<open>
  \<^verbatim>\<open>
  export async function cleanExpiredTokens(): Promise<void> {
    await prisma.refreshToken.deleteMany({ where: { expiresAt: { lt: new Date() } } });
  }
  \<close>
\<close>

definition cleanExpiredTokens :: "Database \<Rightarrow> int \<Rightarrow> Database" where
  "cleanExpiredTokens db now = refreshToken_deleteMany_expiresAt_lt db now"

text \<open>
  \<^verbatim>\<open>
  export function extractTokenFromHeader(authHeader: string | null): string | null {
    if (!authHeader || !authHeader.startsWith("Bearer ")) {
      return null;
    }
    return authHeader.substring(7);
  }
  export function authenticateRequest(authHeader: string | null): JWTPayload | null {
    const token = extractTokenFromHeader(authHeader);
    if (!token) {
      return null;
    }
    return verifyAccessToken(token);
  }
  \<close>
  \<^verbatim>\<open>!s\<close> holds of \<^verbatim>\<open>null\<close> and of the empty string.
\<close>

definition extractTokenFromHeader :: "string option \<Rightarrow> string option" where
  "extractTokenFromHeader authHeader =
     (case authHeader of
        None \<Rightarrow> None
      | Some h \<Rightarrow>
          if h = [] \<or> \<not> startsWith h ''Bearer '' then None
          else Some (substring h 7))"

definition authenticateRequest :: "Oracles \<Rightarrow> string option \<Rightarrow> JWTPayload option" where
  "authenticateRequest orc authHeader =
     (case extractTokenFromHeader authHeader of
        None \<Rightarrow> None
      | Some token \<Rightarrow> if token = [] then None else verifyAccessToken orc token)"

section \<open>Request bodies and lib/validation.ts\<close>

text \<open>
  A parsed JSON value. The keys of an object are distinct after parsing, and no schema
  below reads a number, so a number is kept as an integer.
\<close>

datatype json =
    JNull
  | JBool bool
  | JNumber int
  | JString string
  | JArray "json list"
  | JObject "(string \<times> json) list"

text \<open>A field that an object schema declares as \<^verbatim>\<open>z.string()\<close>: the body is an object,
  the key is there and its value is a string. Keys the schema does not declare are dropped.\<close>

definition z_string_field :: "json \<Rightarrow> string \<Rightarrow> string option" where
  "z_string_field data key =
     (case data of
        JObject kvs \<Rightarrow>
          (case map_of kvs key of
             Some (JString s) \<Rightarrow> Some s
           | _ \<Rightarrow> None)
      | _ \<Rightarrow> None)"

text \<open>
  \<^verbatim>\<open>
  export const refreshTokenSchema = z.object({
    refreshToken: z.string().min(1, "Refresh token is required"),
  });
  export const loginSchema = z.object({
    email: z.string().email("Invalid email address"),
    password: z.string().min(8, "Password must be at least 8 characters"),
  });
  export const registerSchema = z.object({
    email: z.string().email("Invalid email format"),
    password: z.string().min(8, ...)
      .regex(/^(?=.*[a-z])(?=.*[A-Z])(?=.*\d)/, ...),
    name: z.string().min(2, "Name must be at least 2 characters"),
  });
  \<close>
  \<^verbatim>\<open>validateRequest(schema, data)\<close> gives the parsed data, or the list of errors; the
  list itself is not kept here (\<open>None\<close>).
\<close>

definition validate_refreshTokenSchema :: "json \<Rightarrow> string option" where
  "validate_refreshTokenSchema data =
     (case z_string_field data ''refreshToken'' of
        None \<Rightarrow> None
      | Some t \<Rightarrow> if 1 \<le> length t then Some t else None)"

definition validate_loginSchema :: "Oracles \<Rightarrow> json \<Rightarrow> (string \<times> string) option" where
  "validate_loginSchema orc data =
     (case (z_string_field data ''email'', z_string_field data ''password'') of
        (Some e, Some pw) \<Rightarrow>
          if is_email orc e \<and> 8 \<le> length pw then Some (e, pw) else None
      | _ \<Rightarrow> None)"

text \<open>The character classes of the password pattern. In \<^verbatim>\<open>.*\<close> the dot stops at a
  line terminator, so each lookahead finds its character on the first line. The two
  Unicode line separators lie outside the character type used here.\<close>

definition is_lower :: "char \<Rightarrow> bool" where
  "is_lower c = (97 \<le> (of_char c :: nat) \<and> (of_char c :: nat) \<le> 122)"

definition is_upper :: "char \<Rightarrow> bool" where
  "is_upper c = (65 \<le> (of_char c :: nat) \<and> (of_char c :: nat) \<le> 90)"

definition is_digit :: "char \<Rightarrow> bool" where
  "is_digit c = (48 \<le> (of_char c :: nat) \<and> (of_char c :: nat) \<le> 57)"

definition is_line_terminator :: "char \<Rightarrow> bool" where
  "is_line_terminator c = ((of_char c :: nat) = 10 \<or> (of_char c :: nat) = 13)"

definition password_pattern :: "string \<Rightarrow> bool" where
  "password_pattern pw =
     (let line = takeWhile (\<lambda>c. \<not> is_line_terminator c) pw
      in list_ex is_lower line \<and> list_ex is_upper line \<and> list_ex is_digit line)"

definition validate_registerSchema ::
    "Oracles \<Rightarrow> json \<Rightarrow> (string \<times> string \<times> string) option" where
  "validate_registerSchema orc data =
     (case (z_string_field data ''email'', z_string_field data ''password'',
            z_string_field data ''name'') of
        (Some e, Some pw, Some n) \<Rightarrow>
          if is_email orc e \<and> 8 \<le> length pw \<and> password_pattern pw \<and> 2 \<le> length n
          then Some (e, pw, n) else None
      | _ \<Rightarrow> None)"

section \<open>The authentication routes\<close>

text \<open>
  A request: the \<^verbatim>\<open>x-forwarded-for\<close> header and the body (\<open>None\<close> when
  \<^verbatim>\<open>request.json()\<close> throws). A response: the status and what the JSON carries. The user
  object of a success carries the id, email, name, role and permissions; the login route
  copies three more columns of the row (avatar, stripeCustomerId, emailVerified), which no
  decision reads and the rows here do not have.
\<close>

record Request =
  x_forwarded_for :: "string option"
  body :: "json option"

record UserView =
  view_id :: string
  view_email :: string
  view_name :: string
  view_role :: UserRole
  view_permissions :: "string list"

datatype Response =
    ErrorResponse nat string
  | ValidationResponse
  | RateLimitResponse string int
  | AuthResponse nat UserView AuthTokens

definition userView :: "User \<Rightarrow> UserView" where
  "userView user =
     \<lparr>view_id = user_id user, view_email = user_email user, view_name = user_name user,
      view_role = user_role user, view_permissions = getUserPermissions (user_role user)\<rparr>"

text \<open>\<^verbatim>\<open>request.headers.get("x-forwarded-for") || "unknown"\<close>\<close>

definition client_ip :: "Request \<Rightarrow> string" where
  "client_ip request =
     (case x_forwarded_for request of
        None \<Rightarrow> ''unknown''
      | Some ip \<Rightarrow> if ip = [] then ''unknown'' else ip)"


text \<open>
  app/api/auth/register/route.ts:
  \<^verbatim>\<open>
      const ip = request.headers.get("x-forwarded-for") || "unknown";
      const { allowed, remaining } = await checkRateLimit(`register:${ip}`, 5, 3600);
      if (!allowed) { return ... status 429 }
      const body = await request.json();
      const validation = await validateRequest(registerSchema, body);
      if (!validation.success) { return ... status 400 }
      const { email, password, name } = validation.data;
      const existingUser = await prisma.user.findUnique({ where: { email } });
      if (existingUser) {
        return ... { success: false, error: "User with this email already exists" }, status 409
      }
      const hashedPassword = await hashPassword(password);
      const user = await prisma.user.create({
        data: { email, password: hashedPassword, name, role: UserRole.author,
                emailVerified: null },
      });
      const tokens = await generateAuthTokens(user);
      return ... status 201
    } catch (error) {
      return ... { success: false, error: "An error occurred during registration" }, status 500
  \<close>
\<close>

definition POST_register :: "Oracles \<Rightarrow> Database \<Rightarrow> Request \<Rightarrow> Response \<times> Database" where
  "POST_register orc db request =
     (let ip = client_ip request;
          (allowed, remaining) = checkRateLimit orc (''register:'' @ ip) 5 3600
      in if \<not> allowed
         then (RateLimitResponse ''Too many registration attempts. Please try again later.''
                 remaining, db)
         else
           (case body request of
              None \<Rightarrow> (ErrorResponse 500 ''An error occurred during registration'', db)
            | Some data \<Rightarrow>
                (case validate_registerSchema orc data of
                   None \<Rightarrow> (ValidationResponse, db)
                 | Some (email, password, name) \<Rightarrow>
                     (case user_findUnique_email db email of
                        Some existingUser \<Rightarrow>
                          (ErrorResponse 409 ''User with this email already exists'', db)
                      | None \<Rightarrow>
                          (let hashedPassword = hashPassword orc password
                           in case user_create db
                                     \<lparr>user_id = new_user_id orc, user_email = email,
                                      user_name = name, user_password = Some hashedPassword,
                                      user_role = author\<rparr> of
                                Inl e \<Rightarrow>
                                  (ErrorResponse 500 ''An error occurred during registration'',
                                   db)
                              | Inr (db1, user) \<Rightarrow>
                                  (case generateAuthTokens orc db1 user of
                                     Inl e \<Rightarrow>
                                       (ErrorResponse 500
                                          ''An error occurred during registration'', db1)
                                   | Inr (tokens, db2) \<Rightarrow>
                                       (AuthResponse 201 (userView user) tokens, db2)))))))"

text \<open>
  app/api/auth/login/route.ts:
  \<^verbatim>\<open>
      const ip = request.headers.get("x-forwarded-for") || "unknown";
      const { allowed, remaining } = await checkRateLimit(`login:${ip}`, 10, 3600);
      if (!allowed) { return ... status 429 }
      const body = await request.json();
      const validation = await validateRequest(loginSchema, body);
      if (!validation.success) { return ... status 400 }
      const { email, password } = validation.data;
      const user = await prisma.user.findUnique({ where: { email } });
      // Check if user exists and has a password (OAuth users don't have passwords)
      if (!user || !user.password) {
        return ... { success: false, error: "Invalid credentials" }, status 401
      }
      const isPasswordValid = await verifyPassword(password, user.password);
      if (!isPasswordValid) {
        return ... { success: false, error: "Invalid credentials" }, status 401
      }
      const tokens = await generateAuthTokens(user);
      return ... status 200
    } catch (error) {
      return ... { success: false, error: "An error occurred during login" }, status 500
  \<close>
  The third component of the result lists the calls of \<^verbatim>\<open>verifyPassword\<close> the request
  made, each with its two arguments.
\<close>

definition POST_login ::
    "Oracles \<Rightarrow> Database \<Rightarrow> Request \<Rightarrow> Response \<times> Database \<times> (string \<times> string) list" where
  "POST_login orc db request =
     (let ip = client_ip request;
          (allowed, remaining) = checkRateLimit orc (''login:'' @ ip) 10 3600
      in if \<not> allowed
         then (RateLimitResponse ''Too many login attempts. Please try again later.''
                 remaining, db, [])
         else
           (case body request of
              None \<Rightarrow> (ErrorResponse 500 ''An error occurred during login'', db, [])
            | Some data \<Rightarrow>
                (case validate_loginSchema orc data of
                   None \<Rightarrow> (ValidationResponse, db, [])
                 | Some (email, password) \<Rightarrow>
                     (case user_findUnique_email db email of
                        None \<Rightarrow> (ErrorResponse 401 ''Invalid credentials'', db, [])
                      | Some user \<Rightarrow>
                          (case user_password user of
                             None \<Rightarrow> (ErrorResponse 401 ''Invalid credentials'', db, [])
                           | Some hash \<Rightarrow>
                               if hash = []
                               then (ErrorResponse 401 ''Invalid credentials'', db, [])
                               else
                                 (let isPasswordValid = verifyPassword orc password hash;
                                      calls = [(password, hash)]
                                  in if \<not> isPasswordValid
                                     then (ErrorResponse 401 ''Invalid credentials'', db, calls)
                                     else
                                       (case generateAuthTokens orc db user of
                                          Inl e \<Rightarrow>
                                            (ErrorResponse 500
                                               ''An error occurred during login'', db, calls)
                                        | Inr (tokens, db1) \<Rightarrow>
                                            (AuthResponse 200 (userView user) tokens, db1,
                                             calls))))))))"

section \<open>Example data\<close>

text \<open>
  A small store (an editor with a password, a viewer without one, one refresh token that
  expires at instant 1000), answers of the surroundings that can be computed, and one
  request for each route.
\<close>

definition example_user :: User where
  "example_user =
     \<lparr>user_id = ''u1'', user_email = ''a@b.com'', user_name = ''Al'',
      user_password = Some ''hash-of-Password123'', user_role = editor\<rparr>"

definition example_oauth_user :: User where
  "example_oauth_user =
     \<lparr>user_id = ''u2'', user_email = ''o@b.com'', user_name = ''Olu'',
      user_password = None, user_role = viewer\<rparr>"

definition example_row :: RefreshToken where
  "example_row = \<lparr>rt_token = ''old-token'', rt_userId = ''u1'', rt_expiresAt = 1000\<rparr>"

definition example_db :: Database where
  "example_db =
     \<lparr>users = [example_user, example_oauth_user], refreshTokens = [example_row]\<rparr>"

definition example_db_rotated :: Database where
  "example_db_rotated =
     \<lparr>users = [example_user, example_oauth_user],
      refreshTokens =
        [\<lparr>rt_token = ''new-token'', rt_userId = ''u1'', rt_expiresAt = 604801000\<rparr>]\<rparr>"

definition example_oracles :: Oracles where
  "example_oracles =
     \<lparr>process_env = (\<lambda>k. None),
      jwt_sign = (\<lambda>payload secret expiry. ''signed:'' @ jwt_userId payload),
      jwt_verify = (\<lambda>token secret.
        if token = ''signed:u1''
        then Inr \<lparr>jwt_userId = ''u1'', jwt_email = ''a@b.com'', jwt_role = editor\<rparr>
        else Inl ''jwt malformed''),
      bcrypt_hash = (\<lambda>password cost. ''hash-of-'' @ password),
      bcrypt_compare = (\<lambda>password hash. hash = ''hash-of-'' @ password),
      nanoid = (\<lambda>n. ''new-token''),
      new_Date = 1000,
      plus_days = (\<lambda>t d. t + d * 86400000),
      new_user_id = ''u3'',
      is_email = (\<lambda>e. CHR ''@'' \<in> set e),
      checkRateLimit = (\<lambda>key limit window. (True, int limit))\<rparr>"

definition example_refresh_request :: Request where
  "example_refresh_request =
     \<lparr>x_forwarded_for = None,
      body = Some (JObject [(''refreshToken'', JString ''old-token'')])\<rparr>"

definition example_login_request :: Request where
  "example_login_request =
     \<lparr>x_forwarded_for = Some ''10.0.0.7'',
      body = Some (JObject [(''email'', JString ''o@b.com''),
                            (''password'', JString ''Password123'')])\<rparr>"

definition example_register_request :: Request where
  "example_register_request =
     \<lparr>x_forwarded_for = None,
      body = Some (JObject [(''email'', JString ''new@b.com''),
                            (''password'', JString ''Password123''),
                            (''name'', JString ''Nia''),
                            (''role'', JString ''admin'')])\<rparr>"

lemmas example_defs = example_user_def example_oauth_user_def example_row_def example_db_def
  example_db_rotated_def example_oracles_def example_refresh_request_def
  example_login_request_def example_register_request_def

lemmas lib_defs = refreshToken_findUnique_def user_findUnique_id_def
  refreshToken_findUnique_include_user_def refreshToken_delete_def refreshToken_create_def
  user_findUnique_email_def user_create_def JWT_SECRET_def ACCESS_TOKEN_EXPIRY_def
  verifyPassword_def hashPassword_def generateAccessToken_def generateRefreshToken_def
  generateAuthTokens_def verifyAccessToken_def verifyRefreshToken_def revokeRefreshToken_def
  extractTokenFromHeader_def authenticateRequest_def z_string_field_def
  validate_refreshTokenSchema_def validate_loginSchema_def validate_registerSchema_def
  password_pattern_def is_lower_def is_upper_def is_digit_def is_line_terminator_def
  userView_def client_ip_def substring_def

section \<open>Facts about the string functions and the tables\<close>

lemma startsWith_prefix: "startsWith s p = prefix p s"
  by (induction s p rule: startsWith.induct) auto

lemma endsWith_suffix: "endsWith s p = suffix p s"
  by (simp add: endsWith_def startsWith_prefix suffix_to_prefix)

lemma rolePermissions_same: "rolePermissions R = getUserPermissions R"
  by (cases R) simp_all

section \<open>Facts about the store\<close>

lemma find_filter_None: "find P (filter (\<lambda>x. \<not> P x) xs) = None"
  by (induction xs) auto

lemma find_filter_other: "(\<And>x. Q x \<Longrightarrow> P x) \<Longrightarrow> find Q (filter P xs) = find Q xs"
  by (induction xs) auto

lemma findUnique_after_delete:
  "refreshToken_findUnique
     (db\<lparr>refreshTokens := filter (\<lambda>r. rt_token r \<noteq> t) (refreshTokens db)\<rparr>) t = None"
  using find_filter_None [of "\<lambda>r. rt_token r = t" "refreshTokens db"]
  by (simp add: refreshToken_findUnique_def)

lemma revoke_eq:
  "revokeRefreshToken db t =
     Inr (case refreshToken_findUnique db t of
            None \<Rightarrow> db
          | Some r \<Rightarrow> db\<lparr>refreshTokens := filter (\<lambda>r. rt_token r \<noteq> t) (refreshTokens db)\<rparr>)"
  by (simp add: revokeRefreshToken_def refreshToken_delete_def split: option.splits)

lemma revoke_gone:
  "revokeRefreshToken db t = Inr db1 \<Longrightarrow> refreshToken_findUnique db1 t = None"
  by (auto simp: revoke_eq findUnique_after_delete split: option.splits)

lemma revoke_absent:
  "refreshToken_findUnique db t = None \<Longrightarrow> revokeRefreshToken db t = Inr db"
  by (simp add: revoke_eq)

lemma revoke_users:
  "revokeRefreshToken db t = Inr db1 \<Longrightarrow> users db1 = users db"
  by (auto simp: revoke_eq split: option.splits)

lemma revoke_others:
  "revokeRefreshToken db t = Inr db1 \<Longrightarrow> t' \<noteq> t \<Longrightarrow>
   refreshToken_findUnique db1 t' = refreshToken_findUnique db t'"
  by (auto simp: revoke_eq refreshToken_findUnique_def find_filter_other split: option.splits)



lemma generateAuthTokens_users:
  "generateAuthTokens orc db user = Inr (tokens, db') \<Longrightarrow> users db' = users db"
  by (auto simp: generateAuthTokens_def generateRefreshToken_def refreshToken_create_def Let_def
      split: sum.splits if_splits)


lemma find_None_list_ex: "(find P xs = None) = (\<not> list_ex P xs)"
  by (auto simp: find_None_iff list_ex_iff)

lemma find_append_None:
  "find P xs = None \<Longrightarrow> find P (xs @ ys) = find P ys"
  by (induction xs) (auto split: if_splits)

lemma generateAuthTokens_result:
  "generateAuthTokens orc db user =
     (if refreshToken_findUnique db (nanoid orc 64) = None
      then Inr (\<lparr>accessToken =
                   jwt_sign orc \<lparr>jwt_userId = user_id user, jwt_email = user_email user,
                                 jwt_role = user_role user\<rparr>
                     (JWT_SECRET (process_env orc)) ''15m'',
                 refreshToken = nanoid orc 64\<rparr>,
                db\<lparr>refreshTokens := refreshTokens db @
                     [\<lparr>rt_token = nanoid orc 64, rt_userId = user_id user,
                       rt_expiresAt = plus_days orc (new_Date orc) 7\<rparr>]\<rparr>)
      else Inl UniqueConstraintFailed)"
  by (simp add: generateAuthTokens_def generateRefreshToken_def refreshToken_create_def
      generateAccessToken_def ACCESS_TOKEN_EXPIRY_def Let_def refreshToken_findUnique_def
      find_None_list_ex)

lemma user_create_ok:
  assumes "user_findUnique_email db (user_email u) = None"
    and "user_findUnique_id db (user_id u) = None"
  shows "user_create db u = Inr (db\<lparr>users := users db @ [u]\<rparr>, u)"
  using assms
  by (auto simp: user_create_def user_findUnique_email_def user_findUnique_id_def
      find_None_iff list_ex_iff)

section \<open>Facts about the routes\<close>





lemma register_valid:
  assumes "body request = Some data"
    and "validate_registerSchema orc data = Some (e, pw, n)"
    and "fst (checkRateLimit orc (''register:'' @ client_ip request) 5 3600)"
    and "user_findUnique_email db e = None"
    and "user_findUnique_id db (new_user_id orc) = None"
    and "u = \<lparr>user_id = new_user_id orc, user_email = e, user_name = n,
              user_password = Some (hashPassword orc pw), user_role = author\<rparr>"
  shows "POST_register orc db request =
           (case generateAuthTokens orc (db\<lparr>users := users db @ [u]\<rparr>) u of
              Inl err \<Rightarrow>
                (ErrorResponse 500 ''An error occurred during registration'',
                 db\<lparr>users := users db @ [u]\<rparr>)
            | Inr (tokens, db2) \<Rightarrow> (AuthResponse 201 (userView u) tokens, db2))"
  using assms user_create_ok [of db u]
  by (auto simp: POST_register_def Let_def split: prod.splits)

lemma register_users:
  "users (snd (POST_register orc db request)) = users db
    \<or> (\<exists>e n h. users (snd (POST_register orc db request)) =
          users db @ [\<lparr>user_id = new_user_id orc, user_email = e, user_name = n,
                       user_password = Some h, user_role = author\<rparr>])"
  by (auto simp: POST_register_def Let_def user_create_def
      split: prod.splits option.splits sum.splits if_splits
      dest: generateAuthTokens_users)

lemma register_view:
  assumes "POST_register orc db request = (AuthResponse st view tokens, db')"
  shows "view_role view = author
       \<and> (\<exists>u \<in> set (users db'). user_id u = view_id view \<and> user_role u = author)"
  using assms
  by (auto simp: POST_register_def Let_def user_create_def userView_def
      split: prod.splits option.splits sum.splits if_splits
      dest: generateAuthTokens_users)

section \<open>The permission table\<close>

text \<open>
  Claim C1, amended. For every role \<open>R\<close> and action \<open>a\<close>, \<open>hasPermission R a\<close> holds iff
  the set granted to \<open>R\<close> contains \<open>*\<close>, or contains a pattern ending in \<open>:*\<close> whose
  prefix is a prefix of \<open>a\<close>, or contains \<open>a\<close> itself, where the prefix of a pattern is
  the pattern without its last two code units (\<^verbatim>\<open>p.slice(0, -2)\<close>): the colon is not part
  of it. An admin has every permission, and a viewer does not have \<open>content:create\<close>.
\<close>

theorem hasPermission_pattern:
  "(hasPermission R a \<longleftrightarrow>
     (''*'' \<in> set (getUserPermissions R)
      \<or> (\<exists>p \<in> set (getUserPermissions R).
            suffix '':*'' p \<and> prefix (take (length p - 2) p) a)
      \<or> a \<in> set (getUserPermissions R)))
   \<and> hasPermission admin a
   \<and> \<not> hasPermission viewer ''content:create''"
  by (cases R) (auto simp: hasPermission_def array_includes_def array_some_def endsWith_suffix
       startsWith_prefix slice_from_start_def suffix_def)

text \<open>The characterisation at four actions of the library's tests and at one action that
  only shares the name of a namespace.\<close>

theorem hasPermission_pattern_witness:
  "hasPermission editor ''content:anything'' \<and> hasPermission editor ''contentious''
   \<and> \<not> hasPermission editor ''users:create'' \<and> \<not> hasPermission author ''content:edit:all''"
  using hasPermission_pattern [of editor "''content:anything''"]
    hasPermission_pattern [of editor "''contentious''"]
    hasPermission_pattern [of editor "''users:create''"]
    hasPermission_pattern [of author "''content:edit:all''"]
  by (simp add: suffix_to_prefix)

text \<open>
  With the colon counted into the prefix, as claim C1 reads it, an editor would not have
  the action \<open>contentious\<close>; the function grants it, because \<open>content\<close> is a prefix of it.
\<close>

theorem hasPermission_colon_counterexample:
  "hasPermission editor ''contentious'' \<and> \<not> has_colon_prefix editor ''contentious''"
  by (simp add: hasPermission_def array_includes_def array_some_def endsWith_def
       slice_from_start_def has_colon_prefix_def suffix_to_prefix)

text \<open>
  Claim C9. \<open>canModifyResource\<close> is true for an admin and for an editor whatever the two
  ids are, and for an author or a viewer it is true iff the acting user is the owner.
\<close>

theorem canModifyResource_roles:
  "canModifyResource admin u ow \<and> canModifyResource editor u ow
   \<and> canModifyResource author u ow = (u = ow) \<and> canModifyResource viewer u ow = (u = ow)
   \<and> canModifyResource R u ow = (R = admin \<or> R = editor \<or> u = ow)"
  by (auto simp: canModifyResource_def)

theorem canModifyResource_roles_witness:
  "canModifyResource editor ''u1'' ''u2'' \<and> \<not> canModifyResource author ''u1'' ''u2''
   \<and> canModifyResource author ''u1'' ''u1''"
  using canModifyResource_roles [of "''u1''" "''u2''" author]
    canModifyResource_roles [of "''u1''" "''u1''" author]
  by simp

text \<open>
  Claim C10. The permission check of lib/auth.ts and the one of the shared package return
  the same boolean for every role and every action.
\<close>

theorem hasPermission_implementations_agree:
  "hasPermission R a = shared_hasPermission R a"
  by (simp add: hasPermission_def shared_hasPermission_def rolePermissions_same)

theorem hasPermission_implementations_agree_witness:
  "shared_hasPermission editor ''content:anything''
   \<and> \<not> shared_hasPermission viewer ''content:create''"
  using hasPermission_implementations_agree [of editor "''content:anything''"]
    hasPermission_implementations_agree [of viewer "''content:create''"]
  by (simp add: hasPermission_def array_includes_def array_some_def endsWith_def
      slice_from_start_def)

section \<open>The refresh-token store\<close>

text \<open>
  Claim C2, amended. \<open>verifyRefreshToken\<close> returns the user \<open>u\<close> iff a row for the token
  exists, its \<open>expiresAt\<close> is not before the current instant (\<open>now \<le> expiresAt\<close>, so a
  token whose \<open>expiresAt\<close> equals the current instant is still valid) and \<open>u\<close> is the user
  the row refers to; it returns null when no row exists and when \<open>expiresAt < now\<close>.
\<close>

theorem verifyRefreshToken_expiry:
  "(verifyRefreshToken db now t = Some u \<longleftrightarrow>
      (\<exists>r. refreshToken_findUnique db t = Some r \<and> now \<le> rt_expiresAt r
           \<and> user_findUnique_id db (rt_userId r) = Some u))
   \<and> (refreshToken_findUnique db t = None \<longrightarrow> verifyRefreshToken db now t = None)
   \<and> (\<forall>r. refreshToken_findUnique db t = Some r \<and> rt_expiresAt r < now \<longrightarrow>
          verifyRefreshToken db now t = None)"
  by (auto simp: verifyRefreshToken_def refreshToken_findUnique_include_user_def
      split: option.splits)

theorem verifyRefreshToken_expiry_witness:
  "verifyRefreshToken example_db 1000 ''old-token'' = Some example_user
   \<and> verifyRefreshToken example_db 1001 ''old-token'' = None
   \<and> verifyRefreshToken example_db 1000 ''no-such-token'' = None"
  using verifyRefreshToken_expiry [of example_db 1000 "''old-token''" example_user]
    verifyRefreshToken_expiry [of example_db 1001 "''old-token''" example_user]
    verifyRefreshToken_expiry [of example_db 1000 "''no-such-token''" example_user]
  by (simp add: example_defs refreshToken_findUnique_def user_findUnique_id_def)

text \<open>
  The token of the example store expires at instant 1000. Verified at instant 1000, where
  claim C2 asks for null (\<open>expiresAt \<le> now\<close>), it is accepted.
\<close>

theorem verifyRefreshToken_at_expiry_counterexample:
  "refreshToken_findUnique example_db ''old-token'' = Some example_row
   \<and> rt_expiresAt example_row \<le> 1000
   \<and> verifyRefreshToken example_db 1000 ''old-token'' \<noteq> None"
  by (simp add: example_defs lib_defs)

text \<open>
  Claim C8. \<open>revokeRefreshToken\<close> never gives its caller an error: for every store and every
  token it completes with a store in which no row has the token, and revoking once more
  completes and changes nothing. Users and the rows of other tokens are not touched. For
  a token without a row the deletion is rejected, the rejection is swallowed and the store
  stays as it was.
\<close>

theorem revokeRefreshToken_idempotent:
  "\<exists>db1. revokeRefreshToken db t = Inr db1
     \<and> refreshToken_findUnique db1 t = None
     \<and> revokeRefreshToken db1 t = Inr db1
     \<and> users db1 = users db
     \<and> (refreshToken_findUnique db t = None \<longrightarrow>
          refreshToken_delete db t = Inl RecordNotFound \<and> db1 = db)
     \<and> (\<forall>t'. t' \<noteq> t \<longrightarrow> refreshToken_findUnique db1 t' = refreshToken_findUnique db t')"
proof -
  obtain db1 where r: "revokeRefreshToken db t = Inr db1"
    by (simp add: revoke_eq)
  have gone: "refreshToken_findUnique db1 t = None"
    using r by (rule revoke_gone)
  have again: "revokeRefreshToken db1 t = Inr db1"
    using gone by (rule revoke_absent)
  have absent: "refreshToken_findUnique db t = None \<longrightarrow>
      refreshToken_delete db t = Inl RecordNotFound \<and> db1 = db"
  proof
    assume a: "refreshToken_findUnique db t = None"
    have "refreshToken_delete db t = Inl RecordNotFound"
      using a by (simp add: refreshToken_delete_def)
    moreover have "db1 = db"
      using r revoke_absent [OF a] by simp
    ultimately show "refreshToken_delete db t = Inl RecordNotFound \<and> db1 = db" by simp
  qed
  have others:
    "\<forall>t'. t' \<noteq> t \<longrightarrow> refreshToken_findUnique db1 t' = refreshToken_findUnique db t'"
    using revoke_others [OF r] by simp
  have us: "users db1 = users db"
    using r by (rule revoke_users)
  from r gone again us absent others show ?thesis
    by (intro exI [of _ db1] conjI)
qed

theorem revokeRefreshToken_idempotent_witness:
  "revokeRefreshToken example_db ''old-token'' = Inr (example_db\<lparr>refreshTokens := []\<rparr>)
   \<and> revokeRefreshToken (example_db\<lparr>refreshTokens := []\<rparr>) ''old-token'' =
       Inr (example_db\<lparr>refreshTokens := []\<rparr>)
   \<and> revokeRefreshToken example_db ''no-such-token'' = Inr example_db"
  using revokeRefreshToken_idempotent [of example_db "''old-token''"]
    revokeRefreshToken_idempotent [of example_db "''no-such-token''"]
  by (simp add: revokeRefreshToken_def refreshToken_delete_def refreshToken_findUnique_def
      example_defs)

section \<open>The token codec and the bearer header\<close>

text \<open>
  Claim C3 asks that the process fail at start when \<^verbatim>\<open>JWT_SECRET\<close> is unset. With no
  variable set, lib/auth.ts loads without an error, its secret is the string written in
  the source, and access tokens are signed and verified with that string; lib/stripe.ts,
  in the same situation for its own key, throws while loading.
\<close>

theorem JWT_SECRET_unset_fallback:
  "auth_module_load (\<lambda>k. None) = Inr ''your-super-secret-jwt-key-change-in-production''
   \<and> generateAccessToken (orc\<lparr>process_env := (\<lambda>k. None)\<rparr>) payload =
       jwt_sign orc payload ''your-super-secret-jwt-key-change-in-production'' ''15m''
   \<and> verifyAccessToken (orc\<lparr>process_env := (\<lambda>k. None)\<rparr>) token =
       (case jwt_verify orc token ''your-super-secret-jwt-key-change-in-production'' of
          Inl err \<Rightarrow> None | Inr claims \<Rightarrow> Some claims)
   \<and> stripe_module_load (\<lambda>k. None) = Inl ''STRIPE_SECRET_KEY is not set''"
  by (simp add: auth_module_load_def JWT_SECRET_def generateAccessToken_def
      ACCESS_TOKEN_EXPIRY_def verifyAccessToken_def stripe_module_load_def)

text \<open>
  Claim C6. \<open>authenticateRequest\<close> returns null for a missing header, for a header that does
  not start with \<open>Bearer\<close> and one space (in exactly this case), and for a header with
  nothing after that prefix. Otherwise the rest of the header, further spaces included, is
  the token: it goes to \<open>verifyAccessToken\<close> unchanged and the result of that call is
  returned, the claims or null where the verification throws.
\<close>

theorem authenticateRequest_bearer:
  "authenticateRequest orc None = None
   \<and> (\<not> prefix ''Bearer '' h \<longrightarrow> authenticateRequest orc (Some h) = None)
   \<and> authenticateRequest orc (Some ''Bearer '') = None
   \<and> (tok \<noteq> [] \<longrightarrow>
        extractTokenFromHeader (Some (''Bearer '' @ tok)) = Some tok
        \<and> authenticateRequest orc (Some (''Bearer '' @ tok)) = verifyAccessToken orc tok)
   \<and> extractTokenFromHeader (Some ''Bearer   spacey'') = Some ''  spacey''
   \<and> authenticateRequest orc (Some ''Bearer   spacey'') = verifyAccessToken orc ''  spacey''
   \<and> authenticateRequest orc (Some ''bearer abc'') = None
   \<and> verifyAccessToken orc tok =
        (case jwt_verify orc tok (JWT_SECRET (process_env orc)) of
           Inl err \<Rightarrow> None | Inr claims \<Rightarrow> Some claims)"
  by (auto simp: authenticateRequest_def extractTokenFromHeader_def startsWith_prefix
      substring_def verifyAccessToken_def)

theorem authenticateRequest_bearer_witness:
  "authenticateRequest example_oracles (Some ''Basic xyz'') = None
   \<and> authenticateRequest example_oracles (Some ''Bearer signed:u1'') =
       Some \<lparr>jwt_userId = ''u1'', jwt_email = ''a@b.com'', jwt_role = editor\<rparr>
   \<and> authenticateRequest example_oracles (Some ''Bearer   spacey'') = None"
  using authenticateRequest_bearer [of example_oracles "''Basic xyz''" "''signed:u1''"]
  by (simp add: example_oracles_def verifyAccessToken_def)

section \<open>The routes\<close>



text \<open>
  Claim C5. Let the body of a login request carry the email \<open>e\<close>, let the store hold a
  user with this email whose password hash is null, and let \<open>db0\<close> be a store without a
  user of this email. Then, whatever password is supplied, the request makes no call of
  \<open>verifyPassword\<close>, its response is the response the same request gets on \<open>db0\<close>, and
  once the rate limiter and the validation have let it through this response is the 401
  error "Invalid credentials".
\<close>

theorem login_null_password:
  assumes b: "body request = Some data"
    and em: "z_string_field data ''email'' = Some e"
    and u: "user_findUnique_email db e = Some user"
    and n: "user_password user = None"
    and absent: "user_findUnique_email db0 e = None"
  shows "snd (snd (POST_login orc db request)) = []
       \<and> fst (POST_login orc db request) = fst (POST_login orc db0 request)
       \<and> (fst (checkRateLimit orc (''login:'' @ client_ip request) 10 3600)
            \<and> validate_loginSchema orc data \<noteq> None \<longrightarrow>
            POST_login orc db request = (ErrorResponse 401 ''Invalid credentials'', db, [])
            \<and> POST_login orc db0 request =
                (ErrorResponse 401 ''Invalid credentials'', db0, []))"
  using assms
  by (auto simp: POST_login_def Let_def validate_loginSchema_def
      split: prod.splits option.splits if_splits)

theorem login_null_password_witness:
  "POST_login example_oracles example_db example_login_request =
     (ErrorResponse 401 ''Invalid credentials'', example_db, [])
   \<and> POST_login example_oracles (example_db\<lparr>users := [example_user]\<rparr>)
       example_login_request =
     (ErrorResponse 401 ''Invalid credentials'', example_db\<lparr>users := [example_user]\<rparr>, [])"
proof -
  have b: "body example_login_request =
      Some (JObject [(''email'', JString ''o@b.com''), (''password'', JString ''Password123'')])"
    by (simp add: example_login_request_def)
  have em: "z_string_field
      (JObject [(''email'', JString ''o@b.com''), (''password'', JString ''Password123'')])
      ''email'' = Some ''o@b.com''"
    by (simp add: z_string_field_def)
  have v: "validate_loginSchema example_oracles
      (JObject [(''email'', JString ''o@b.com''), (''password'', JString ''Password123'')]) \<noteq>
      None"
    by (simp add: validate_loginSchema_def z_string_field_def example_oracles_def)
  have u: "user_findUnique_email example_db ''o@b.com'' = Some example_oauth_user"
    by (simp add: user_findUnique_email_def example_defs)
  have n: "user_password example_oauth_user = None"
    by (simp add: example_oauth_user_def)
  have a: "user_findUnique_email (example_db\<lparr>users := [example_user]\<rparr>) ''o@b.com'' = None"
    by (simp add: user_findUnique_email_def example_defs)
  have r: "fst (checkRateLimit example_oracles (''login:'' @ client_ip example_login_request)
      10 3600)"
    by (simp add: example_oracles_def)
  from login_null_password [OF b em u n a, of example_oracles] v r show ?thesis by blast
qed

text \<open>
  Claim C7. A registration that the rate limiter lets through, whose body validates to
  \<open>(e, pw, n)\<close>, with \<open>e\<close> not yet registered and the id of the new row not taken, adds
  the row with these values, the hash of \<open>pw\<close> and the role \<open>author\<close> to the user table,
  whatever else the body carries and however the issuing of tokens ends; when the
  generated refresh token is free the answer is 201, reports the role \<open>author\<close>, and its
  access token is signed over the role \<open>author\<close>. For every request at all, the user
  table stays as it was or gains exactly one row, of role \<open>author\<close>, and a successful
  answer reports the role \<open>author\<close> for a user whose row has it. No field of the request
  reaches the role.
\<close>

theorem register_role_author:
  "(\<forall>data e pw n u.
      body request = Some data
      \<and> validate_registerSchema orc data = Some (e, pw, n)
      \<and> fst (checkRateLimit orc (''register:'' @ client_ip request) 5 3600)
      \<and> user_findUnique_email db e = None
      \<and> user_findUnique_id db (new_user_id orc) = None
      \<and> u = \<lparr>user_id = new_user_id orc, user_email = e, user_name = n,
               user_password = Some (hashPassword orc pw), user_role = author\<rparr> \<longrightarrow>
        users (snd (POST_register orc db request)) = users db @ [u]
        \<and> user_findUnique_email (snd (POST_register orc db request)) e = Some u
        \<and> POST_register orc db request =
            (case generateAuthTokens orc (db\<lparr>users := users db @ [u]\<rparr>) u of
               Inl err \<Rightarrow>
                 (ErrorResponse 500 ''An error occurred during registration'',
                  db\<lparr>users := users db @ [u]\<rparr>)
             | Inr (tokens, db2) \<Rightarrow> (AuthResponse 201 (userView u) tokens, db2))
        \<and> (refreshToken_findUnique db (nanoid orc 64) = None \<longrightarrow>
             POST_register orc db request =
               (AuthResponse 201
                  \<lparr>view_id = new_user_id orc, view_email = e, view_name = n,
                   view_role = author, view_permissions = getUserPermissions author\<rparr>
                  \<lparr>accessToken =
                     jwt_sign orc
                       \<lparr>jwt_userId = new_user_id orc, jwt_email = e, jwt_role = author\<rparr>
                       (JWT_SECRET (process_env orc)) ''15m'',
                   refreshToken = nanoid orc 64\<rparr>,
                db\<lparr>users := users db @ [u],
                   refreshTokens := refreshTokens db @
                     [\<lparr>rt_token = nanoid orc 64, rt_userId = new_user_id orc,
                       rt_expiresAt = plus_days orc (new_Date orc) 7\<rparr>]\<rparr>)))
   \<and> (users (snd (POST_register orc db request)) = users db
       \<or> (\<exists>e n h. users (snd (POST_register orc db request)) =
             users db @ [\<lparr>user_id = new_user_id orc, user_email = e, user_name = n,
                          user_password = Some h, user_role = author\<rparr>]))
   \<and> (\<forall>st view tokens db'.
         POST_register orc db request = (AuthResponse st view tokens, db') \<longrightarrow>
           view_role view = author
           \<and> (\<exists>u \<in> set (users db'). user_id u = view_id view \<and> user_role u = author))"
proof (intro conjI allI impI)
  fix data e pw n u
  assume h: "body request = Some data
      \<and> validate_registerSchema orc data = Some (e, pw, n)
      \<and> fst (checkRateLimit orc (''register:'' @ client_ip request) 5 3600)
      \<and> user_findUnique_email db e = None
      \<and> user_findUnique_id db (new_user_id orc) = None
      \<and> u = \<lparr>user_id = new_user_id orc, user_email = e, user_name = n,
               user_password = Some (hashPassword orc pw), user_role = author\<rparr>"
  then have b: "body request = Some data"
    and v: "validate_registerSchema orc data = Some (e, pw, n)"
    and a: "fst (checkRateLimit orc (''register:'' @ client_ip request) 5 3600)"
    and fe: "user_findUnique_email db e = None"
    and fi: "user_findUnique_id db (new_user_id orc) = None"
    and u: "u = \<lparr>user_id = new_user_id orc, user_email = e, user_name = n,
               user_password = Some (hashPassword orc pw), user_role = author\<rparr>"
    by blast+
  note run = register_valid [OF b v a fe fi u]
  show eq: "POST_register orc db request =
      (case generateAuthTokens orc (db\<lparr>users := users db @ [u]\<rparr>) u of
         Inl err \<Rightarrow>
           (ErrorResponse 500 ''An error occurred during registration'',
            db\<lparr>users := users db @ [u]\<rparr>)
       | Inr (tokens, db2) \<Rightarrow> (AuthResponse 201 (userView u) tokens, db2))"
    by (rule run)
  show us: "users (snd (POST_register orc db request)) = users db @ [u]"
    unfolding run by (simp add: generateAuthTokens_result)
  show "user_findUnique_email (snd (POST_register orc db request)) e = Some u"
    using fe us u by (simp add: user_findUnique_email_def find_append_None)
  assume free: "refreshToken_findUnique db (nanoid orc 64) = None"
  have free1: "refreshToken_findUnique (db\<lparr>users := users db @ [u]\<rparr>) (nanoid orc 64) = None"
    using free by (simp add: refreshToken_findUnique_def)
  show "POST_register orc db request =
      (AuthResponse 201
         \<lparr>view_id = new_user_id orc, view_email = e, view_name = n,
          view_role = author, view_permissions = getUserPermissions author\<rparr>
         \<lparr>accessToken =
            jwt_sign orc
              \<lparr>jwt_userId = new_user_id orc, jwt_email = e, jwt_role = author\<rparr>
              (JWT_SECRET (process_env orc)) ''15m'',
          refreshToken = nanoid orc 64\<rparr>,
       db\<lparr>users := users db @ [u],
          refreshTokens := refreshTokens db @
            [\<lparr>rt_token = nanoid orc 64, rt_userId = new_user_id orc,
              rt_expiresAt = plus_days orc (new_Date orc) 7\<rparr>]\<rparr>)"
    unfolding run using free1 u by (simp add: generateAuthTokens_result userView_def)
next
  show "users (snd (POST_register orc db request)) = users db
       \<or> (\<exists>e n h. users (snd (POST_register orc db request)) =
             users db @ [\<lparr>user_id = new_user_id orc, user_email = e, user_name = n,
                          user_password = Some h, user_role = author\<rparr>])"
    by (rule register_users)
next
  fix st view tokens db'
  assume ok: "POST_register orc db request = (AuthResponse st view tokens, db')"
  show "view_role view = author"
    using register_view [OF ok] by simp
  show "\<exists>u \<in> set (users db'). user_id u = view_id view \<and> user_role u = author"
    using register_view [OF ok] by simp
qed

text \<open>A body that asks for the role \<open>admin\<close> gets a user with the role \<open>author\<close>.\<close>

theorem register_role_author_witness:
  "POST_register example_oracles example_db example_register_request =
     (AuthResponse 201
        \<lparr>view_id = ''u3'', view_email = ''new@b.com'', view_name = ''Nia'', view_role = author,
         view_permissions = getUserPermissions author\<rparr>
        \<lparr>accessToken = ''signed:u3'', refreshToken = ''new-token''\<rparr>,
      \<lparr>users = [example_user, example_oauth_user,
                 \<lparr>user_id = ''u3'', user_email = ''new@b.com'', user_name = ''Nia'',
                  user_password = Some ''hash-of-Password123'', user_role = author\<rparr>],
        refreshTokens = [example_row,
                 \<lparr>rt_token = ''new-token'', rt_userId = ''u3'', rt_expiresAt = 604801000\<rparr>]\<rparr>)"
proof -
  have b: "body example_register_request =
      Some (JObject [(''email'', JString ''new@b.com''), (''password'', JString ''Password123''),
                     (''name'', JString ''Nia''), (''role'', JString ''admin'')])"
    by (simp add: example_register_request_def)
  have v: "validate_registerSchema example_oracles
      (JObject [(''email'', JString ''new@b.com''), (''password'', JString ''Password123''),
                (''name'', JString ''Nia''), (''role'', JString ''admin'')]) =
      Some (''new@b.com'', ''Password123'', ''Nia'')"
    by (simp add: validate_registerSchema_def z_string_field_def example_oracles_def
        password_pattern_def is_lower_def is_upper_def is_digit_def is_line_terminator_def)
  have a: "fst (checkRateLimit example_oracles
      (''register:'' @ client_ip example_register_request) 5 3600)"
    by (simp add: example_oracles_def)
  have fe: "user_findUnique_email example_db ''new@b.com'' = None"
    by (simp add: user_findUnique_email_def example_defs)
  have fi: "user_findUnique_id example_db (new_user_id example_oracles) = None"
    by (simp add: user_findUnique_id_def example_defs)
  have free: "refreshToken_findUnique example_db (nanoid example_oracles 64) = None"
    by (simp add: refreshToken_findUnique_def example_defs)
  from register_role_author
    [where orc = example_oracles and db = example_db and request = example_register_request]
    b v a fe fi free
  have "POST_register example_oracles example_db example_register_request =
      (AuthResponse 201
         \<lparr>view_id = new_user_id example_oracles, view_email = ''new@b.com'',
          view_name = ''Nia'', view_role = author,
          view_permissions = getUserPermissions author\<rparr>
         \<lparr>accessToken =
            jwt_sign example_oracles
              \<lparr>jwt_userId = new_user_id example_oracles, jwt_email = ''new@b.com'',
               jwt_role = author\<rparr>
              (JWT_SECRET (process_env example_oracles)) ''15m'',
          refreshToken = nanoid example_oracles 64\<rparr>,
       example_db\<lparr>users := users example_db @
            [\<lparr>user_id = new_user_id example_oracles, user_email = ''new@b.com'',
              user_name = ''Nia'',
              user_password = Some (hashPassword example_oracles ''Password123''),
              user_role = author\<rparr>],
          refreshTokens := refreshTokens example_db @
            [\<lparr>rt_token = nanoid example_oracles 64, rt_userId = new_user_id example_oracles,
              rt_expiresAt = plus_days example_oracles (new_Date example_oracles) 7\<rparr>]\<rparr>)"
    by blast
  then show ?thesis
    by (simp add: example_defs hashPassword_def)
qed

end
